theory Spec2Isabelle
  imports Main
begin

section \<open>Values of the host language\<close>

text \<open>
  A JavaScript \<open>number\<close> is either \<open>NaN\<close> or a value; the type parameter \<open>'n\<close> stands for
  the values other than \<open>NaN\<close>, taken up to \<open>===\<close> (so \<open>+0\<close> and \<open>-0\<close> are one value).
  Nothing in the class computes with numbers: it stores them, hands them to the math
  library and compares them with \<open>===\<close>, which is false as soon as one side is \<open>NaN\<close>.
\<close>

datatype 'n number = NaN | Num 'n

fun strict_equals :: "'n number \<Rightarrow> 'n number \<Rightarrow> bool" where
  "strict_equals (Num a) (Num b) = (a = b)"
| "strict_equals _ _ = False"

datatype 'n Vector3 = Vector3 "'n number" "'n number" "'n number"

text \<open>
  Modelled from the spec: \<open>Vector3.equals\<close> and \<open>Vector3.Zero\<close> belong to the math library,
  which is not part of the source file. The spec calls the comparison "component-wise
  equal" and the default centre "zero".
\<close>

fun Vector3_equals :: "'n Vector3 \<Rightarrow> 'n Vector3 \<Rightarrow> bool" where
  "Vector3_equals (Vector3 a b c) (Vector3 oa ob oc) =
     (strict_equals a oa \<and> strict_equals b ob \<and> strict_equals c oc)"

definition Vector3_Zero :: "('n::zero) Vector3" where
  "Vector3_Zero = Vector3 (Num 0) (Num 0) (Num 0)"

text \<open>
  The matrix type \<open>'m\<close> and the two constructors of \<open>Matrix\<close> the class calls are the math
  library's; they are taken as a parameter, a record named after the class whose static
  members it holds, so that \<open>Matrix.RotationY(a)\<close> reads \<open>RotationY Matrix a\<close>.
\<close>

record ('n, 'm) Matrix_static =
  Identity :: 'm
  RotationY :: "'n number \<Rightarrow> 'm"

text \<open>A callback is known by its identity only.\<close>

type_synonym callback = nat

text \<open>
  \<open>Engine.TEXTUREFORMAT_RGBA\<close>, \<open>Texture.CUBIC_MODE\<close> and \<open>Material.TextureDirtyFlag\<close> are
  named constants declared outside the source file; each is a constructor of its own, next
  to the other values of its numeric type.
\<close>

datatype texture_format = TEXTUREFORMAT_RGBA | TEXTUREFORMAT nat

datatype coordinates_mode = CUBIC_MODE | COORDINATES_MODE nat

datatype dirty_flag = TextureDirtyFlag | DirtyFlag nat

text \<open>
  Modelled from the spec: the values of \<open>delayLoadState\<close> are constants of \<open>Engine\<close>, outside
  the source file. The spec lists the load states NotDelayed, PendingDelayedLoad and Loaded;
  the source names the last two \<open>DELAYLOADSTATE_NOTLOADED\<close> and \<open>DELAYLOADSTATE_LOADED\<close>.
\<close>

datatype delay_load_state =
  DELAYLOADSTATE_NONE | DELAYLOADSTATE_NOTLOADED | DELAYLOADSTATE_LOADED

section \<open>Strings\<close>

text \<open>
  \<open>s.lastIndexOf(c)\<close>: the index of the last occurrence, \<open>-1\<close> when there is none.
\<close>

fun lastIndexOf :: "string \<Rightarrow> char \<Rightarrow> int" where
  "lastIndexOf [] c = -1"
| "lastIndexOf (d # s) c =
     (let r = lastIndexOf s c in if r > -1 then r + 1 else if d = c then 0 else -1)"

text \<open>\<open>s.substring(i)\<close> for \<open>i \<ge> 0\<close>: the string from index \<open>i\<close> on.\<close>

definition substring :: "string \<Rightarrow> int \<Rightarrow> string" where
  "substring s i = drop (nat i) s"

text \<open>
  \<open>s.toLowerCase()\<close> on the letters \<open>A\<close> to \<open>Z\<close>; the other characters are left as
  they are. The result is only ever compared with \<open>.dds\<close> and \<open>.env\<close>, and no character
  outside \<open>A\<close> to \<open>Z\<close> has one of their letters as its lower case.
\<close>

definition toLowerCase_char :: "char \<Rightarrow> char" where
  "toLowerCase_char c =
     (let k = (of_char c :: nat) in if 65 \<le> k \<and> k \<le> 90 then char_of (k + 32) else c)"

definition toLowerCase :: "string \<Rightarrow> string" where
  "toLowerCase s = map toLowerCase_char s"

section \<open>The scene, its engine and the scheduler\<close>

text \<open>
  Modelled from the spec: the cache of loaded textures is the engine's and is not in the
  source file. A cached resource is found under the pair of its root identifier and its
  mip policy; of the resource the source reads \<open>isReady\<close> and extends
  \<open>onLoadedObservable\<close>.
\<close>

record InternalTexture =
  cached_url :: string
  cached_noMipmap :: bool
  isReady :: bool
  onLoadedObservable :: "callback list"

text \<open>
  A handle is either an entry of the cache, by its index, or the result of a load call, by
  the position of that call in the trace of calls.
\<close>

datatype handle = Cached nat | Created nat

text \<open>
  The calls the class makes on its collaborators, with their arguments in the source's
  order (the scene argument left out): \<open>_getFromCache(url, noMipmap)\<close>,
  \<open>createCubeTexture(rootUrl, scene, files, noMipmap, onLoad, onError, format,
  forcedExtension)\<close> and \<open>createPrefilteredCubeTexture(rootUrl, scene, lodScale, lodOffset,
  onLoad, onError, format, forcedExtension, createPolynomials)\<close>.
\<close>

datatype 'n engine_call =
    GetFromCache string bool
  | CreateCubeTexture string "string list option" bool "callback option" "callback option"
      texture_format "string option"
  | CreatePrefilteredCubeTexture string "'n number" "'n number" "callback option"
      "callback option" texture_format "string option" bool

fun is_load_call :: "'n engine_call \<Rightarrow> bool" where
  "is_load_call (GetFromCache _ _) = False"
| "is_load_call _ = True"

text \<open>
  The state outside the descriptor: the scene's loading policy, the engine's cache, the
  trace of calls made so far, the queue of \<open>Tools.SetImmediate\<close>, the callbacks that have
  run, and the dirty marks the scene has received.
\<close>

record 'n scene =
  useDelayedTextureLoading :: bool
  loadedTexturesCache :: "InternalTexture list"
  calls :: "'n engine_call list"
  immediates :: "callback list"
  invoked :: "callback list"
  dirtyMarks :: "dirty_flag list"

text \<open>
  Modelled from the spec: \<open>_getFromCache\<close> is inherited from \<open>BaseTexture\<close>, outside the
  source file. The spec gives \<open>lookup(rootIdentifier, mipmapDisabled)\<close>, which returns the
  existing resource or nothing, "the cache key is the pair". The lookup returns the index
  of the first entry under the key and is recorded in the trace.
\<close>

fun lookup_from :: "InternalTexture list \<Rightarrow> string \<Rightarrow> bool \<Rightarrow> nat \<Rightarrow> nat option" where
  "lookup_from [] u nm i = None"
| "lookup_from (e # es) u nm i =
     (if cached_url e = u \<and> cached_noMipmap e = nm then Some i
      else lookup_from es u nm (Suc i))"

definition getFromCache :: "string \<Rightarrow> bool \<Rightarrow> 'n scene \<Rightarrow> nat option \<times> 'n scene" where
  "getFromCache u nm sc =
     (lookup_from (loadedTexturesCache sc) u nm 0,
      sc\<lparr>calls := calls sc @ [GetFromCache u nm]\<rparr>)"

text \<open>
  Modelled from the spec: the two loaders are the engine's, outside the source file. Each
  is one call that returns a handle; what the engine does with the request is not this
  class's business.
\<close>

definition createCubeTexture ::
  "string \<Rightarrow> string list option \<Rightarrow> bool \<Rightarrow> callback option \<Rightarrow> callback option \<Rightarrow>
   texture_format \<Rightarrow> string option \<Rightarrow> 'n scene \<Rightarrow> handle \<times> 'n scene" where
  "createCubeTexture rootUrl files noMipmap onLoad onError format forcedExtension sc =
     (Created (length (calls sc)),
      sc\<lparr>calls := calls sc @
        [CreateCubeTexture rootUrl files noMipmap onLoad onError format forcedExtension]\<rparr>)"

definition createPrefilteredCubeTexture ::
  "string \<Rightarrow> 'n number \<Rightarrow> 'n number \<Rightarrow> callback option \<Rightarrow> callback option \<Rightarrow>
   texture_format \<Rightarrow> string option \<Rightarrow> bool \<Rightarrow> 'n scene \<Rightarrow> handle \<times> 'n scene" where
  "createPrefilteredCubeTexture rootUrl lodScale lodOffset onLoad onError format
       forcedExtension createPolynomials sc =
     (Created (length (calls sc)),
      sc\<lparr>calls := calls sc @
        [CreatePrefilteredCubeTexture rootUrl lodScale lodOffset onLoad onError format
           forcedExtension createPolynomials]\<rparr>)"

text \<open>
  Modelled from the spec: \<open>scheduleAsync(callback)\<close> "runs callback at the next scheduling
  opportunity, never inline". \<open>SetImmediate\<close> queues the callback; \<open>nextTick\<close> is that
  opportunity, at which the queued callbacks run in order.
\<close>

definition SetImmediate :: "callback \<Rightarrow> 'n scene \<Rightarrow> 'n scene" where
  "SetImmediate cb sc = sc\<lparr>immediates := immediates sc @ [cb]\<rparr>"

definition nextTick :: "'n scene \<Rightarrow> 'n scene" where
  "nextTick sc = sc\<lparr>invoked := invoked sc @ immediates sc, immediates := []\<rparr>"

text \<open>
  Modelled from the spec: \<open>texture.onLoadedObservable.add(cb)\<close> registers the callback "to
  fire when the resource becomes ready"; here it joins the observers of the cache entry of
  index \<open>i\<close>. The constructor passes the index its lookup has just returned, which is in
  range (\<open>lookup_from_bounds\<close> below).
\<close>

definition onLoadedObservable_add :: "nat \<Rightarrow> callback \<Rightarrow> 'n scene \<Rightarrow> 'n scene" where
  "onLoadedObservable_add i cb sc =
     sc\<lparr>loadedTexturesCache := (loadedTexturesCache sc)
        [i := (loadedTexturesCache sc ! i)
           \<lparr>onLoadedObservable := onLoadedObservable (loadedTexturesCache sc ! i) @ [cb]\<rparr>]\<rparr>"

text \<open>
  Modelled from the spec: \<open>markDependentMaterialsStale(flagKind)\<close> is the scene's; the
  scene records each signal it receives.
\<close>

definition markAllMaterialsAsDirty :: "dirty_flag \<Rightarrow> 'n scene \<Rightarrow> 'n scene" where
  "markAllMaterialsAsDirty flag sc = sc\<lparr>dirtyMarks := dirtyMarks sc @ [flag]\<rparr>"

section \<open>The descriptor\<close>

text \<open>
  The members inherited from \<open>BaseTexture\<close> that the class reads or writes. \<open>u_scene\<close> tells
  whether \<open>getScene()\<close> returns the scene or null. A field whose name starts with an
  underscore in the source starts with \<open>u_\<close> here.
\<close>

record 'n BaseTexture =
  name :: string
  hasAlpha :: bool
  isCube :: bool
  gammaSpace :: bool
  lodGenerationScale :: "'n number"
  lodGenerationOffset :: "'n number"
  delayLoadState :: delay_load_state
  u_texture :: "handle option"
  u_scene :: bool

record ('n, 'm) CubeTexture =
  base :: "'n BaseTexture"
  url :: string
  coordinatesMode :: coordinates_mode
  boundingBoxPosition :: "'n Vector3"
  u_boundingBoxSize :: "'n Vector3 option"
  u_rotationY :: "'n number"
  u_noMipmap :: bool
  u_files :: "string list option"
  u_extensions :: "string list option"
  u_textureMatrix :: 'm
  u_format :: texture_format
  u_prefiltered :: bool
  u_createPolynomials :: bool

subsection \<open>Reflection transform and rotation angle\<close>

definition getReflectionTextureMatrix :: "('n, 'm) CubeTexture \<Rightarrow> 'm" where
  "getReflectionTextureMatrix t = u_textureMatrix t"

definition setReflectionTextureMatrix ::
  "'m \<Rightarrow> ('n, 'm) CubeTexture \<Rightarrow> ('n, 'm) CubeTexture" where
  "setReflectionTextureMatrix v t = t\<lparr>u_textureMatrix := v\<rparr>"

definition set_rotationY ::
  "('n, 'm) Matrix_static \<Rightarrow> 'n number \<Rightarrow> ('n, 'm) CubeTexture \<Rightarrow> ('n, 'm) CubeTexture" where
  "set_rotationY Matrix v t =
     (let t1 = t\<lparr>u_rotationY := v\<rparr>
      in setReflectionTextureMatrix (RotationY Matrix (u_rotationY t1)) t1)"

definition get_rotationY :: "('n, 'm) CubeTexture \<Rightarrow> 'n number" where
  "get_rotationY t = u_rotationY t"

subsection \<open>Local-correction extent\<close>

definition set_boundingBoxSize ::
  "'n Vector3 \<Rightarrow> ('n, 'm) CubeTexture \<Rightarrow> 'n scene \<Rightarrow> ('n, 'm) CubeTexture \<times> 'n scene" where
  "set_boundingBoxSize v this sc =
     (if (case u_boundingBoxSize this of None \<Rightarrow> False | Some s \<Rightarrow> Vector3_equals s v)
      then (this, sc)
      else
        let this1 = this\<lparr>u_boundingBoxSize := Some v\<rparr>
        in if u_scene (base this1)
           then (this1, markAllMaterialsAsDirty TextureDirtyFlag sc)
           else (this1, sc))"

definition get_boundingBoxSize :: "('n, 'm) CubeTexture \<Rightarrow> 'n Vector3 option" where
  "get_boundingBoxSize this = u_boundingBoxSize this"

subsection \<open>Construction\<close>

text \<open>
  The extension: the forced one when it is truthy (neither null nor the empty string),
  else the lower-cased part of the root from its last dot on, else the empty string.
\<close>

definition resolve_extension :: "string \<Rightarrow> string option \<Rightarrow> string" where
  "resolve_extension rootUrl forcedExtension =
     (let lastDot = lastIndexOf rootUrl (CHR ''.'')
      in case forcedExtension of
           Some e \<Rightarrow>
             if e \<noteq> [] then e
             else if lastDot > -1 then toLowerCase (substring rootUrl lastDot) else []
         | None \<Rightarrow>
             if lastDot > -1 then toLowerCase (substring rootUrl lastDot) else [])"

definition default_extensions :: "string list" where
  "default_extensions =
     [''_px.jpg'', ''_py.jpg'', ''_pz.jpg'', ''_nx.jpg'', ''_ny.jpg'', ''_nz.jpg'']"

text \<open>The loop that pushes \<open>rootUrl + extensions[index]\<close> for each index in turn.\<close>

function push_files :: "string \<Rightarrow> string list \<Rightarrow> nat \<Rightarrow> string list \<Rightarrow> string list" where
  "push_files rootUrl extensions index files =
     (if index < length extensions
      then push_files rootUrl extensions (Suc index) (files @ [rootUrl @ extensions ! index])
      else files)"
  by pat_completeness auto
termination
  by (relation "measure (\<lambda>(r, es, i, fs). length es - i)") auto

declare push_files.simps [simp del]

text \<open>
  The face list the constructor stores: the given list as it is; without one, a list
  built from the suffixes, which default to the six directional ones only when the
  extension is neither \<open>.dds\<close> nor \<open>.env\<close> and none were given.
\<close>

definition resolve_files ::
  "string \<Rightarrow> string list option \<Rightarrow> string list option \<Rightarrow> bool \<Rightarrow> bool \<Rightarrow> string list" where
  "resolve_files rootUrl extensions files isDDS isEnv =
     (case files of
        Some fs \<Rightarrow> fs
      | None \<Rightarrow>
          (let extensions1 =
                 (if \<not> isEnv \<and> \<not> isDDS \<and> extensions = None then Some default_extensions
                  else extensions)
           in case extensions1 of
                Some es \<Rightarrow> push_files rootUrl es 0 []
              | None \<Rightarrow> []))"

text \<open>
  The constructor. \<open>super\<close> is the object as \<open>super(scene)\<close> leaves it (the constructor of
  \<open>BaseTexture\<close> is outside the source file). Every parameter is passed: a default of the
  source is written out by the caller.
\<close>

definition CubeTexture_new ::
  "('n::zero, 'm) Matrix_static \<Rightarrow> 'n BaseTexture \<Rightarrow> string \<Rightarrow> 'n scene \<Rightarrow>
   string list option \<Rightarrow> bool \<Rightarrow> string list option \<Rightarrow> callback option \<Rightarrow> callback option \<Rightarrow>
   texture_format \<Rightarrow> bool \<Rightarrow> string option \<Rightarrow> bool \<Rightarrow> ('n, 'm) CubeTexture \<times> 'n scene" where
  "CubeTexture_new Matrix super rootUrl sc extensions noMipmap files onLoad onError format
       prefiltered forcedExtension createPolynomials =
     (let this0 =
            \<lparr>base = super\<lparr>name := rootUrl, hasAlpha := False, isCube := True\<rparr>,
             url = rootUrl,
             coordinatesMode = CUBIC_MODE,
             boundingBoxPosition = Vector3_Zero,
             u_boundingBoxSize = None,
             u_rotationY = Num 0,
             u_noMipmap = noMipmap,
             u_files = None,
             u_extensions = None,
             u_textureMatrix = Identity Matrix,
             u_format = format,
             u_prefiltered = prefiltered,
             u_createPolynomials = createPolynomials\<rparr>;
          this1 = (if prefiltered then this0\<lparr>base := (base this0)\<lparr>gammaSpace := False\<rparr>\<rparr>
                   else this0)
      in if rootUrl = [] \<and> files = None then (this1, sc)
         else
           let (found, sc1) = getFromCache rootUrl noMipmap sc;
               this2 = this1\<lparr>base := (base this1)\<lparr>u_texture := map_option Cached found\<rparr>\<rparr>;
               extension = resolve_extension rootUrl forcedExtension;
               isDDS = (extension = ''.dds'');
               isEnv = (extension = ''.env'');
               files1 = resolve_files rootUrl extensions files isDDS isEnv;
               this3 = this2\<lparr>u_files := Some files1\<rparr>
           in case found of
                None \<Rightarrow>
                  (let prefiltered1 = (if \<not> isDDS then False else prefiltered)
                   in if \<not> useDelayedTextureLoading sc1
                      then
                        (let (h, sc2) =
                               (if prefiltered1
                                then createPrefilteredCubeTexture rootUrl
                                       (lodGenerationScale (base this3))
                                       (lodGenerationOffset (base this3))
                                       onLoad onError format forcedExtension
                                       (u_createPolynomials this3) sc1
                                else createCubeTexture rootUrl (Some files1) noMipmap
                                       onLoad onError (u_format this3) forcedExtension sc1)
                         in (this3\<lparr>base := (base this3)\<lparr>u_texture := Some h\<rparr>\<rparr>, sc2))
                      else
                        (this3\<lparr>base := (base this3)
                                 \<lparr>delayLoadState := DELAYLOADSTATE_NOTLOADED\<rparr>\<rparr>, sc1))
              | Some i \<Rightarrow>
                  (case onLoad of
                     None \<Rightarrow> (this3, sc1)
                   | Some cb \<Rightarrow>
                       if isReady (loadedTexturesCache sc1 ! i)
                       then (this3, SetImmediate cb sc1)
                       else (this3, onLoadedObservable_add i cb sc1)))"

subsection \<open>Deferred loading\<close>

definition delayLoad ::
  "('n, 'm) CubeTexture \<Rightarrow> 'n scene \<Rightarrow> ('n, 'm) CubeTexture \<times> 'n scene" where
  "delayLoad this sc =
     (if delayLoadState (base this) \<noteq> DELAYLOADSTATE_NOTLOADED then (this, sc)
      else if \<not> u_scene (base this) then (this, sc)
      else
        let this1 = this\<lparr>base := (base this)\<lparr>delayLoadState := DELAYLOADSTATE_LOADED\<rparr>\<rparr>;
            (found, sc1) = getFromCache (url this1) (u_noMipmap this1) sc;
            this2 = this1\<lparr>base := (base this1)\<lparr>u_texture := map_option Cached found\<rparr>\<rparr>
        in case found of
             Some i \<Rightarrow> (this2, sc1)
           | None \<Rightarrow>
               (let (h, sc2) =
                      (if u_prefiltered this2
                       then createPrefilteredCubeTexture (url this2)
                              (lodGenerationScale (base this2))
                              (lodGenerationOffset (base this2))
                              None None (u_format this2) None
                              (u_createPolynomials this2) sc1
                       else createCubeTexture (url this2) (u_files this2) (u_noMipmap this2)
                              None None (u_format this2) None sc1)
                in (this2\<lparr>base := (base this2)\<lparr>u_texture := Some h\<rparr>\<rparr>, sc2)))"

subsection \<open>Cloning\<close>

text \<open>
  Modelled from the spec: \<open>SerializationHelper.Clone\<close> is outside the source file. It
  runs the creation function and "then copies all annotated fields" from the source
  object onto what the function returned, which it returns. The one annotated member
  the class declares is \<open>_rotationY\<close>; how the annotated members inherited from
  \<open>BaseTexture\<close> are copied is the parameter \<open>copy_inherited\<close>.
\<close>

definition copy_annotated ::
  "('n BaseTexture \<Rightarrow> 'n BaseTexture \<Rightarrow> 'n BaseTexture) \<Rightarrow>
   ('n, 'm) CubeTexture \<Rightarrow> ('n, 'm) CubeTexture \<Rightarrow> ('n, 'm) CubeTexture" where
  "copy_annotated copy_inherited source destination =
     destination\<lparr>u_rotationY := u_rotationY source,
                 base := copy_inherited (base source) (base destination)\<rparr>"

text \<open>
  \<open>clone\<close> makes a new object or, without a scene, returns \<open>this\<close>; the result says
  which, since two equal records need not be one object.
\<close>

datatype ('n, 'm) cloned = SameInstance | NewInstance "('n, 'm) CubeTexture"

definition clone ::
  "('n::zero, 'm) Matrix_static \<Rightarrow> 'n BaseTexture \<Rightarrow>
   ('n BaseTexture \<Rightarrow> 'n BaseTexture \<Rightarrow> 'n BaseTexture) \<Rightarrow>
   ('n, 'm) CubeTexture \<Rightarrow> 'n scene \<Rightarrow> ('n, 'm) cloned \<times> 'n scene" where
  "clone Matrix super copy_inherited this sc =
     (if \<not> u_scene (base this) then (SameInstance, sc)
      else
        let (created, sc1) =
              CubeTexture_new Matrix super (url this) sc (u_extensions this) (u_noMipmap this)
                (u_files this) None None TEXTUREFORMAT_RGBA False None False
        in (NewInstance (copy_annotated copy_inherited this created), sc1))"

section \<open>Concrete inputs\<close>

text \<open>
  The inputs at which the theorems below are evaluated: integers for numbers, a list of
  integers for a matrix, a base object with the usual defaults and a scene attached, and
  a scene with a given loading policy and cache and nothing recorded yet.
\<close>

definition example_Matrix :: "(int, int list) Matrix_static" where
  "example_Matrix =
     \<lparr>Identity = [1, 0, 0, 1],
      RotationY = (\<lambda>a. case a of NaN \<Rightarrow> [] | Num k \<Rightarrow> [k])\<rparr>"

definition example_super :: "int BaseTexture" where
  "example_super =
     \<lparr>name = [], hasAlpha = False, isCube = False, gammaSpace = True,
      lodGenerationScale = Num 1, lodGenerationOffset = Num 0,
      delayLoadState = DELAYLOADSTATE_NONE, u_texture = None, u_scene = True\<rparr>"

definition example_scene :: "bool \<Rightarrow> InternalTexture list \<Rightarrow> int scene" where
  "example_scene delayed cache =
     \<lparr>useDelayedTextureLoading = delayed, loadedTexturesCache = cache, calls = [],
      immediates = [], invoked = [], dirtyMarks = []\<rparr>"

definition example_cache :: "InternalTexture list" where
  "example_cache =
     [\<lparr>cached_url = ''sky'', cached_noMipmap = False, isReady = True,
        onLoadedObservable = []\<rparr>,
      \<lparr>cached_url = ''sea'', cached_noMipmap = False, isReady = False,
        onLoadedObservable = [3]\<rparr>]"

definition example_copy :: "int BaseTexture \<Rightarrow> int BaseTexture \<Rightarrow> int BaseTexture" where
  "example_copy source destination =
     destination\<lparr>name := name source, hasAlpha := hasAlpha source, isCube := isCube source,
       gammaSpace := gammaSpace source\<rparr>"

text \<open>
  Four constructions: six images under a deferred-loading scene, the same under an
  immediate-loading scene, a prefiltered \<open>env.env\<close> loaded at once, and a prefiltered
  \<open>sky.dds\<close> under a deferred-loading scene.
\<close>

definition example_pending :: "(int, int list) CubeTexture \<times> int scene" where
  "example_pending =
     CubeTexture_new example_Matrix example_super ''sky'' (example_scene True []) None False
       None None None TEXTUREFORMAT_RGBA False None False"

definition example_eager :: "(int, int list) CubeTexture \<times> int scene" where
  "example_eager =
     CubeTexture_new example_Matrix example_super ''sky'' (example_scene False []) None False
       None None None TEXTUREFORMAT_RGBA False None False"

definition example_env :: "(int, int list) CubeTexture \<times> int scene" where
  "example_env =
     CubeTexture_new example_Matrix example_super ''env.env'' (example_scene False []) None
       False None None None TEXTUREFORMAT_RGBA True None False"

definition example_dds :: "(int, int list) CubeTexture \<times> int scene" where
  "example_dds =
     CubeTexture_new example_Matrix example_super ''sky.dds'' (example_scene True []) None
       False None None None TEXTUREFORMAT_RGBA True None False"

section \<open>Auxiliary facts\<close>

lemma push_files_eq: "push_files r es i fs = fs @ map ((@) r) (drop i es)"
proof (induction r es i fs rule: push_files.induct)
  case (1 rootUrl extensions index files)
  show ?case
  proof (cases "index < length extensions")
    case True
    then have "drop index extensions = extensions ! index # drop (Suc index) extensions"
      by (simp add: Cons_nth_drop_Suc)
    with True 1 show ?thesis
      by (simp add: push_files.simps [of rootUrl extensions index files])
  next
    case False
    then show ?thesis
      by (simp add: push_files.simps [of rootUrl extensions index files])
  qed
qed

lemma lookup_from_bounds:
  "lookup_from es u nm k = Some i \<Longrightarrow> k \<le> i \<and> i < k + length es"
  by (induction es arbitrary: k) (fastforce split: if_splits)+

lemma Vector3_equals_NaN: "\<not> Vector3_equals (Vector3 NaN b c) w"
  by (cases w) simp

lemma strict_equals_sym: "strict_equals a b \<Longrightarrow> strict_equals b a"
  by (cases a; cases b) simp_all

lemma Vector3_equals_sym: "Vector3_equals u v \<Longrightarrow> Vector3_equals v u"
  by (cases u; cases v) (auto intro: strict_equals_sym)

lemma strict_equals_trans: "strict_equals a b \<Longrightarrow> strict_equals b c \<Longrightarrow> strict_equals a c"
  by (cases a; cases b; cases c) simp_all

lemma Vector3_equals_trans:
  "Vector3_equals u v \<Longrightarrow> Vector3_equals v w \<Longrightarrow> Vector3_equals u w"
  by (cases u; cases v; cases w) (auto intro: strict_equals_trans)

lemmas example_defs = example_Matrix_def example_super_def example_scene_def

lemmas engine_defs = getFromCache_def createCubeTexture_def createPrefilteredCubeTexture_def
  SetImmediate_def onLoadedObservable_add_def markAllMaterialsAsDirty_def

lemma stored_prefiltered_is_requested:
  "u_prefiltered (fst (CubeTexture_new Matrix super rootUrl sc extensions noMipmap files
      onLoad onError format prefiltered forcedExtension createPolynomials)) = prefiltered"
  by (simp add: CubeTexture_new_def Let_def engine_defs split: option.splits)

lemmas string_defs = resolve_extension_def toLowerCase_def toLowerCase_char_def substring_def

lemma u_files_new:
  "\<not> (rootUrl = [] \<and> files = None) \<Longrightarrow>
   u_files (fst (CubeTexture_new Matrix super rootUrl sc extensions noMipmap files
      onLoad onError format prefiltered forcedExtension createPolynomials)) =
   Some (resolve_files rootUrl extensions files
      (resolve_extension rootUrl forcedExtension = ''.dds'')
      (resolve_extension rootUrl forcedExtension = ''.env''))"
  by (simp add: CubeTexture_new_def Let_def engine_defs split: option.splits)

section \<open>Reflection transform and rotation angle\<close>

text \<open>
  C5. Setting the rotation angle to \<open>theta\<close> and reading the reflection transform gives
  exactly the matrix the math library builds for a rotation of \<open>theta\<close> about the Y axis,
  and setting the transform to any matrix \<open>M\<close> afterwards makes the getter return \<open>M\<close>.
\<close>

theorem rotation_then_transform:
  "getReflectionTextureMatrix (set_rotationY Matrix theta t) = RotationY Matrix theta \<and>
   getReflectionTextureMatrix
     (setReflectionTextureMatrix M (set_rotationY Matrix theta t)) = M"
  by (simp add: getReflectionTextureMatrix_def setReflectionTextureMatrix_def set_rotationY_def)

text \<open>
  C10. After setting the rotation angle to \<open>theta\<close> and then the transform to \<open>M\<close>, the
  angle read back is still \<open>theta\<close> while the transform is \<open>M\<close>: the angle describes the
  transform only if \<open>M\<close> happens to be the rotation matrix for \<open>theta\<close>.
\<close>

theorem rotation_angle_kept_by_transform_setter:
  "get_rotationY (setReflectionTextureMatrix M (set_rotationY Matrix theta t)) = theta \<and>
   get_rotationY (setReflectionTextureMatrix M t) = get_rotationY t \<and>
   (getReflectionTextureMatrix (setReflectionTextureMatrix M (set_rotationY Matrix theta t)) =
      RotationY Matrix
        (get_rotationY (setReflectionTextureMatrix M (set_rotationY Matrix theta t))))
     = (M = RotationY Matrix theta)"
  by (simp add: get_rotationY_def getReflectionTextureMatrix_def
      setReflectionTextureMatrix_def set_rotationY_def)

theorem rotation_angle_kept_by_transform_setter_witness:
  "get_rotationY (setReflectionTextureMatrix [9]
      (set_rotationY example_Matrix (Num 2) (fst example_eager))) = Num 2 \<and>
   getReflectionTextureMatrix (setReflectionTextureMatrix [9]
      (set_rotationY example_Matrix (Num 2) (fst example_eager))) \<noteq>
     RotationY example_Matrix (Num 2)"
  using rotation_angle_kept_by_transform_setter
    [of "[9]" example_Matrix "Num 2" "fst example_eager"]
  by (simp add: example_Matrix_def get_rotationY_def getReflectionTextureMatrix_def
      setReflectionTextureMatrix_def set_rotationY_def)

section \<open>Construction\<close>

text \<open>
  C9. A construction that asks for prefiltered data ends with \<open>gammaSpace\<close> false, whatever
  the root, the extension, the file list, the cache and the loading policy are (also when
  the constructor returns early); one that does not leaves \<open>gammaSpace\<close> as inherited.
\<close>

theorem gammaSpace_after_construction:
  "gammaSpace (base (fst (CubeTexture_new Matrix super rootUrl sc extensions noMipmap files
      onLoad onError format prefiltered forcedExtension createPolynomials))) =
   (if prefiltered then False else gammaSpace super)"
  by (simp add: CubeTexture_new_def Let_def getFromCache_def createCubeTexture_def
      createPrefilteredCubeTexture_def split: option.splits)

text \<open>
  C8. With an empty root and no file list the constructor returns a descriptor and leaves
  the scene as it was: no cache lookup and no load call are recorded, no face list is
  stored, and the backing texture and the load state are the inherited ones.
\<close>

theorem inert_descriptor:
  "snd (CubeTexture_new Matrix super [] sc extensions noMipmap None onLoad onError format
      prefiltered forcedExtension createPolynomials) = sc \<and>
   u_files (fst (CubeTexture_new Matrix super [] sc extensions noMipmap None onLoad onError
      format prefiltered forcedExtension createPolynomials)) = None \<and>
   u_texture (base (fst (CubeTexture_new Matrix super [] sc extensions noMipmap None onLoad
      onError format prefiltered forcedExtension createPolynomials))) = u_texture super \<and>
   delayLoadState (base (fst (CubeTexture_new Matrix super [] sc extensions noMipmap None
      onLoad onError format prefiltered forcedExtension createPolynomials))) =
      delayLoadState super"
  by (simp add: CubeTexture_new_def Let_def)

text \<open>
  C1. The claim wants the stored prefiltered flag forced to false whenever the extension is
  not \<open>.dds\<close>. At the root \<open>room.env\<close> with prefiltered data requested the extension is
  \<open>.env\<close> and the stored flag stays true: only the constructor's local copy is reset.
  Under immediate loading the constructor therefore calls the six-image loader, while
  under deferred loading \<open>delayLoad\<close> reads the stored flag and calls the prefiltered one.
\<close>

theorem stored_flag_not_downgraded:
  "resolve_extension ''room.env'' None = ''.env'' \<and>
   u_prefiltered (fst (CubeTexture_new example_Matrix example_super ''room.env''
      (example_scene True []) None False None None None TEXTUREFORMAT_RGBA True None True)) =
     True \<and>
   calls (snd (CubeTexture_new example_Matrix example_super ''room.env''
      (example_scene False []) None False None None None TEXTUREFORMAT_RGBA True None True)) =
     [GetFromCache ''room.env'' False,
      CreateCubeTexture ''room.env'' (Some []) False None None TEXTUREFORMAT_RGBA None] \<and>
   calls (snd (case CubeTexture_new example_Matrix example_super ''room.env''
      (example_scene True []) None False None None None TEXTUREFORMAT_RGBA True None True of
        (t, sc) \<Rightarrow> delayLoad t sc)) =
     [GetFromCache ''room.env'' False, GetFromCache ''room.env'' False,
      CreatePrefilteredCubeTexture ''room.env'' (Num 1) (Num 0) None None TEXTUREFORMAT_RGBA
        None True]"
  by (simp add: CubeTexture_new_def delayLoad_def Let_def engine_defs example_defs string_defs
      resolve_files_def)

text \<open>
  C3, as the claim states it, fails: with no file list, the root \<open>sky\<close> (neither \<open>.dds\<close>
  nor \<open>.env\<close>) and the one suffix \<open>_a.jpg\<close>, the face list has one entry, not six; and
  with the root \<open>sky.dds\<close> and the same suffix, the face list of a container source is
  not empty.
\<close>

theorem face_list_not_six:
  "resolve_extension ''sky'' None \<noteq> ''.dds'' \<and> resolve_extension ''sky'' None \<noteq> ''.env'' \<and>
   u_files (fst (CubeTexture_new example_Matrix example_super ''sky'' (example_scene False [])
      (Some [''_a.jpg'']) False None None None TEXTUREFORMAT_RGBA False None False)) =
     Some [''sky_a.jpg''] \<and>
   length [''sky_a.jpg''] \<noteq> 6 \<and>
   resolve_extension ''sky.dds'' None = ''.dds'' \<and>
   u_files (fst (CubeTexture_new example_Matrix example_super ''sky.dds''
      (example_scene False []) (Some [''_a.jpg'']) False None None None TEXTUREFORMAT_RGBA
      False None False)) = Some [''sky.dds_a.jpg'']"
  by (simp add: u_files_new resolve_files_def push_files_eq string_defs)

text \<open>
  C3, amended. For a construction given a root or a file list: a given file list is stored
  as it is; without one, a given suffix list yields the root followed by each suffix, in
  the order given and as many as given, whatever the extension; with neither, the list is
  the root followed by the six default suffixes in their fixed order when the extension is
  neither \<open>.dds\<close> nor \<open>.env\<close>, and empty when it is one of them.
\<close>

theorem face_list_resolution:
  assumes "\<not> (rootUrl = [] \<and> files = None)"
  shows "u_files (fst (CubeTexture_new Matrix super rootUrl sc extensions noMipmap files
      onLoad onError format prefiltered forcedExtension createPolynomials)) =
   Some (case files of
           Some fs \<Rightarrow> fs
         | None \<Rightarrow>
             (case extensions of
                Some es \<Rightarrow> map ((@) rootUrl) es
              | None \<Rightarrow>
                  if resolve_extension rootUrl forcedExtension = ''.dds'' \<or>
                     resolve_extension rootUrl forcedExtension = ''.env''
                  then []
                  else [rootUrl @ ''_px.jpg'', rootUrl @ ''_py.jpg'', rootUrl @ ''_pz.jpg'',
                        rootUrl @ ''_nx.jpg'', rootUrl @ ''_ny.jpg'', rootUrl @ ''_nz.jpg'']))"
  using assms
  by (simp add: u_files_new resolve_files_def push_files_eq default_extensions_def
      split: option.splits)

theorem face_list_resolution_witness:
  "u_files (fst example_eager) =
     Some [''sky_px.jpg'', ''sky_py.jpg'', ''sky_pz.jpg'',
           ''sky_nx.jpg'', ''sky_ny.jpg'', ''sky_nz.jpg''] \<and>
   u_files (fst example_env) = Some [] \<and>
   u_files (fst (CubeTexture_new example_Matrix example_super ''sky'' (example_scene False [])
      (Some [''_b.png'', ''_a.png'']) False None None None TEXTUREFORMAT_RGBA False None
      False)) = Some [''sky_b.png'', ''sky_a.png''] \<and>
   u_files (fst (CubeTexture_new example_Matrix example_super [] (example_scene False [])
      None False (Some [''f1'', ''f2'']) None None TEXTUREFORMAT_RGBA False None False)) =
     Some [''f1'', ''f2'']"
proof -
  have root: "\<not> (''sky'' = [] \<and> (None :: string list option) = None)"
    and env: "\<not> (''env.env'' = [] \<and> (None :: string list option) = None)"
    and given: "\<not> (([] :: string) = [] \<and> Some [''f1'', ''f2''] = None)"
    by simp_all
  show ?thesis
    unfolding example_eager_def example_env_def
    using face_list_resolution [OF root, of example_Matrix example_super
        "example_scene False []" None False None None TEXTUREFORMAT_RGBA False None False]
      face_list_resolution [OF env, of example_Matrix example_super
        "example_scene False []" None False None None TEXTUREFORMAT_RGBA True None False]
      face_list_resolution [OF root, of example_Matrix example_super
        "example_scene False []" "Some [''_b.png'', ''_a.png'']" False None None
        TEXTUREFORMAT_RGBA False None False]
      face_list_resolution [OF given, of example_Matrix example_super
        "example_scene False []" None False None None TEXTUREFORMAT_RGBA False None False]
    by (simp add: string_defs)
qed

text \<open>
  C7. When the cache holds the resource and a success callback is given, the constructor
  takes the cached handle and makes no call but the lookup: no load call. It runs no
  callback itself. If the resource is ready the callback joins the queue of the next
  scheduling opportunity; if not, it joins the observers of the resource.
\<close>

theorem cache_hit_callback:
  assumes "\<not> (rootUrl = [] \<and> files = None)"
      and "lookup_from (loadedTexturesCache sc) rootUrl noMipmap 0 = Some i"
  shows "i < length (loadedTexturesCache sc) \<and>
     u_texture (base (fst (CubeTexture_new Matrix super rootUrl sc extensions noMipmap files
        (Some cb) onError format prefiltered forcedExtension createPolynomials))) =
       Some (Cached i) \<and>
     calls (snd (CubeTexture_new Matrix super rootUrl sc extensions noMipmap files
        (Some cb) onError format prefiltered forcedExtension createPolynomials)) =
       calls sc @ [GetFromCache rootUrl noMipmap] \<and>
     invoked (snd (CubeTexture_new Matrix super rootUrl sc extensions noMipmap files
        (Some cb) onError format prefiltered forcedExtension createPolynomials)) =
       invoked sc \<and>
     immediates (snd (CubeTexture_new Matrix super rootUrl sc extensions noMipmap files
        (Some cb) onError format prefiltered forcedExtension createPolynomials)) =
       (if isReady (loadedTexturesCache sc ! i) then immediates sc @ [cb]
        else immediates sc) \<and>
     loadedTexturesCache (snd (CubeTexture_new Matrix super rootUrl sc extensions noMipmap
        files (Some cb) onError format prefiltered forcedExtension createPolynomials)) =
       (if isReady (loadedTexturesCache sc ! i) then loadedTexturesCache sc
        else (loadedTexturesCache sc)
          [i := (loadedTexturesCache sc ! i)
             \<lparr>onLoadedObservable :=
                onLoadedObservable (loadedTexturesCache sc ! i) @ [cb]\<rparr>])"
  using assms lookup_from_bounds [of "loadedTexturesCache sc" rootUrl noMipmap 0 i]
  by (auto simp add: CubeTexture_new_def Let_def engine_defs)

theorem cache_hit_callback_witness:
  "calls (snd (CubeTexture_new example_Matrix example_super ''sky''
      (example_scene False example_cache) None False None (Some 7) None TEXTUREFORMAT_RGBA
      False None False)) = [GetFromCache ''sky'' False] \<and>
   immediates (snd (CubeTexture_new example_Matrix example_super ''sky''
      (example_scene False example_cache) None False None (Some 7) None TEXTUREFORMAT_RGBA
      False None False)) = [7] \<and>
   invoked (snd (CubeTexture_new example_Matrix example_super ''sky''
      (example_scene False example_cache) None False None (Some 7) None TEXTUREFORMAT_RGBA
      False None False)) = [] \<and>
   invoked (nextTick (snd (CubeTexture_new example_Matrix example_super ''sky''
      (example_scene False example_cache) None False None (Some 7) None TEXTUREFORMAT_RGBA
      False None False))) = [7] \<and>
   calls (snd (CubeTexture_new example_Matrix example_super ''sea''
      (example_scene False example_cache) None False None (Some 7) None TEXTUREFORMAT_RGBA
      False None False)) = [GetFromCache ''sea'' False] \<and>
   immediates (snd (CubeTexture_new example_Matrix example_super ''sea''
      (example_scene False example_cache) None False None (Some 7) None TEXTUREFORMAT_RGBA
      False None False)) = [] \<and>
   map onLoadedObservable (loadedTexturesCache (snd (CubeTexture_new example_Matrix
      example_super ''sea'' (example_scene False example_cache) None False None (Some 7) None
      TEXTUREFORMAT_RGBA False None False))) = [[], [3, 7]]"
proof -
  have root: "\<not> (''sky'' = [] \<and> (None :: string list option) = None)"
    and root': "\<not> (''sea'' = [] \<and> (None :: string list option) = None)"
    by simp_all
  have ready:
    "lookup_from (loadedTexturesCache (example_scene False example_cache)) ''sky'' False 0 =
       Some 0"
    and waiting:
    "lookup_from (loadedTexturesCache (example_scene False example_cache)) ''sea'' False 0 =
       Some 1"
    by (simp_all add: example_defs example_cache_def)
  show ?thesis
    using cache_hit_callback [OF root ready, of example_Matrix example_super None 7 None
        TEXTUREFORMAT_RGBA False None False]
      cache_hit_callback [OF root' waiting, of example_Matrix example_super None 7 None
        TEXTUREFORMAT_RGBA False None False]
    by (simp add: example_defs example_cache_def nextTick_def)
qed

section \<open>Deferred loading\<close>

text \<open>
  C2. \<open>delayLoad\<close> changes nothing unless the load state is \<open>DELAYLOADSTATE_NOTLOADED\<close> and
  the scene is available. When both hold, the state becomes \<open>DELAYLOADSTATE_LOADED\<close>, the
  cache is looked up once, and a load call follows exactly when the lookup finds nothing:
  one call, to the prefiltered loader if the stored prefiltered flag is set and to the
  six-image loader otherwise. Whatever the first call did, a further call changes nothing.
\<close>

theorem delayLoad_lifecycle:
  "(delayLoadState (base t) \<noteq> DELAYLOADSTATE_NOTLOADED \<or> \<not> u_scene (base t) \<longrightarrow>
      delayLoad t sc = (t, sc)) \<and>
   (delayLoadState (base t) = DELAYLOADSTATE_NOTLOADED \<and> u_scene (base t) \<longrightarrow>
      delayLoadState (base (fst (delayLoad t sc))) = DELAYLOADSTATE_LOADED \<and>
      calls (snd (delayLoad t sc)) =
        calls sc @ GetFromCache (url t) (u_noMipmap t) #
          (case lookup_from (loadedTexturesCache sc) (url t) (u_noMipmap t) 0 of
             Some i \<Rightarrow> []
           | None \<Rightarrow>
               [if u_prefiltered t
                then CreatePrefilteredCubeTexture (url t) (lodGenerationScale (base t))
                       (lodGenerationOffset (base t)) None None (u_format t) None
                       (u_createPolynomials t)
                else CreateCubeTexture (url t) (u_files t) (u_noMipmap t) None None
                       (u_format t) None]) \<and>
      length (filter is_load_call (calls (snd (delayLoad t sc)))) =
        length (filter is_load_call (calls sc)) +
          (if lookup_from (loadedTexturesCache sc) (url t) (u_noMipmap t) 0 = None
           then 1 else 0) \<and>
      u_texture (base (fst (delayLoad t sc))) =
        (case lookup_from (loadedTexturesCache sc) (url t) (u_noMipmap t) 0 of
           Some i \<Rightarrow> Some (Cached i)
         | None \<Rightarrow> Some (Created (Suc (length (calls sc)))))) \<and>
   delayLoad (fst (delayLoad t sc)) sc2 = (fst (delayLoad t sc), sc2)"
  by (simp add: delayLoad_def Let_def getFromCache_def createCubeTexture_def
      createPrefilteredCubeTexture_def split: option.splits)

theorem delayLoad_lifecycle_witness:
  "delayLoadState (base (fst example_pending)) = DELAYLOADSTATE_NOTLOADED \<and>
   u_scene (base (fst example_pending)) \<and>
   delayLoadState (base (fst (delayLoad (fst example_pending) (snd example_pending)))) =
     DELAYLOADSTATE_LOADED \<and>
   calls (snd (delayLoad (fst example_pending) (snd example_pending))) =
     [GetFromCache ''sky'' False, GetFromCache ''sky'' False,
      CreateCubeTexture ''sky''
        (Some [''sky_px.jpg'', ''sky_py.jpg'', ''sky_pz.jpg'',
               ''sky_nx.jpg'', ''sky_ny.jpg'', ''sky_nz.jpg''])
        False None None TEXTUREFORMAT_RGBA None] \<and>
   delayLoad (fst (delayLoad (fst example_pending) (snd example_pending)))
       (snd (delayLoad (fst example_pending) (snd example_pending))) =
     delayLoad (fst example_pending) (snd example_pending) \<and>
   delayLoadState (base (fst example_eager)) = DELAYLOADSTATE_NONE \<and>
   delayLoad (fst example_eager) (snd example_eager) = example_eager"
proof -
  have pending:
    "delayLoadState (base (fst example_pending)) = DELAYLOADSTATE_NOTLOADED \<and>
     u_scene (base (fst example_pending))"
    by (simp add: example_defs example_pending_def CubeTexture_new_def Let_def engine_defs)
  have eager:
    "delayLoadState (base (fst example_eager)) \<noteq> DELAYLOADSTATE_NOTLOADED \<or>
     \<not> u_scene (base (fst example_eager))"
    by (simp add: example_defs example_eager_def CubeTexture_new_def Let_def engine_defs)
  have fields:
    "url (fst example_pending) = ''sky''" "u_noMipmap (fst example_pending) = False"
    "u_prefiltered (fst example_pending) = False"
    "u_format (fst example_pending) = TEXTUREFORMAT_RGBA"
    "calls (snd example_pending) = [GetFromCache ''sky'' False]"
    "loadedTexturesCache (snd example_pending) = []"
    "u_files (fst example_pending) =
       Some [''sky_px.jpg'', ''sky_py.jpg'', ''sky_pz.jpg'',
             ''sky_nx.jpg'', ''sky_ny.jpg'', ''sky_nz.jpg'']"
    "delayLoadState (base (fst example_eager)) = DELAYLOADSTATE_NONE"
    by (simp_all add: example_defs example_pending_def example_eager_def CubeTexture_new_def
        Let_def engine_defs resolve_files_def push_files_eq default_extensions_def string_defs)
  show ?thesis
    using pending eager fields
      delayLoad_lifecycle [of "fst example_pending" "snd example_pending"
        "snd (delayLoad (fst example_pending) (snd example_pending))"]
      delayLoad_lifecycle [of "fst example_eager" "snd example_eager"]
    by simp
qed

section \<open>Local-correction extent\<close>

text \<open>
  C6, as the claim states it, fails: a vector with a \<open>NaN\<close> component is not component-wise
  equal to itself, so setting the extent twice to the same such vector stores it twice and,
  with a scene attached, sends two dirty marks.
\<close>

theorem boundingBoxSize_nan_two_marks:
  "u_scene (base (fst example_eager)) \<and>
   dirtyMarks (snd example_eager) = [] \<and>
   dirtyMarks (snd (set_boundingBoxSize (Vector3 NaN (Num 2) (Num 3))
      (fst (set_boundingBoxSize (Vector3 NaN (Num 2) (Num 3)) (fst example_eager)
         (snd example_eager)))
      (snd (set_boundingBoxSize (Vector3 NaN (Num 2) (Num 3)) (fst example_eager)
         (snd example_eager))))) = [TextureDirtyFlag, TextureDirtyFlag]"
  by (simp add: set_boundingBoxSize_def example_defs example_eager_def CubeTexture_new_def
      Let_def engine_defs)

text \<open>
  C6, amended. When the extent is set to \<open>v\<close> and then to a vector \<open>w\<close> that is
  component-wise equal to \<open>v\<close> under \<open>===\<close>, the second call changes neither the descriptor
  nor the scene, so it sends no dirty mark, and the two calls together send at most one.
  A vector with a \<open>NaN\<close> component is equal to no vector, itself included: setting the
  extent twice to it, with a scene attached, sends two marks.
\<close>

theorem boundingBoxSize_set_twice:
  "(Vector3_equals v w \<longrightarrow>
      set_boundingBoxSize w (fst (set_boundingBoxSize v t sc))
        (snd (set_boundingBoxSize v t sc)) = set_boundingBoxSize v t sc \<and>
      length (dirtyMarks (snd (set_boundingBoxSize w (fst (set_boundingBoxSize v t sc))
        (snd (set_boundingBoxSize v t sc))))) \<le> Suc (length (dirtyMarks sc))) \<and>
   (\<not> Vector3_equals v v \<and> u_scene (base t) \<longrightarrow>
      u_boundingBoxSize (fst (set_boundingBoxSize v (fst (set_boundingBoxSize v t sc))
        (snd (set_boundingBoxSize v t sc)))) = Some v \<and>
      dirtyMarks (snd (set_boundingBoxSize v (fst (set_boundingBoxSize v t sc))
        (snd (set_boundingBoxSize v t sc)))) =
        dirtyMarks sc @ [TextureDirtyFlag, TextureDirtyFlag])"
proof (intro conjI impI)
  assume same: "Vector3_equals v w"
  then show "set_boundingBoxSize w (fst (set_boundingBoxSize v t sc))
        (snd (set_boundingBoxSize v t sc)) = set_boundingBoxSize v t sc"
    by (auto simp add: set_boundingBoxSize_def Let_def markAllMaterialsAsDirty_def
        split: option.splits intro: Vector3_equals_trans)
  from same show "length (dirtyMarks (snd (set_boundingBoxSize w
        (fst (set_boundingBoxSize v t sc)) (snd (set_boundingBoxSize v t sc))))) \<le>
      Suc (length (dirtyMarks sc))"
    by (auto simp add: set_boundingBoxSize_def Let_def markAllMaterialsAsDirty_def
        split: option.splits intro: Vector3_equals_trans)
next
  assume nan: "\<not> Vector3_equals v v \<and> u_scene (base t)"
  then have never: "\<not> Vector3_equals s v" for s
    using Vector3_equals_trans Vector3_equals_sym by blast
  with nan show "u_boundingBoxSize (fst (set_boundingBoxSize v
        (fst (set_boundingBoxSize v t sc)) (snd (set_boundingBoxSize v t sc)))) = Some v"
    by (simp add: set_boundingBoxSize_def Let_def markAllMaterialsAsDirty_def
        split: option.splits)
  from nan never show "dirtyMarks (snd (set_boundingBoxSize v
        (fst (set_boundingBoxSize v t sc)) (snd (set_boundingBoxSize v t sc)))) =
      dirtyMarks sc @ [TextureDirtyFlag, TextureDirtyFlag]"
    by (simp add: set_boundingBoxSize_def Let_def markAllMaterialsAsDirty_def
        split: option.splits)
qed

theorem boundingBoxSize_set_twice_witness:
  "Vector3_equals (Vector3 (Num 1) (Num 2) (Num (3::int))) (Vector3 (Num 1) (Num 2) (Num 3)) \<and>
   dirtyMarks (snd (set_boundingBoxSize (Vector3 (Num 1) (Num 2) (Num 3)) (fst example_eager)
      (snd example_eager))) = [TextureDirtyFlag] \<and>
   set_boundingBoxSize (Vector3 (Num 1) (Num 2) (Num 3))
      (fst (set_boundingBoxSize (Vector3 (Num 1) (Num 2) (Num 3)) (fst example_eager)
         (snd example_eager)))
      (snd (set_boundingBoxSize (Vector3 (Num 1) (Num 2) (Num 3)) (fst example_eager)
         (snd example_eager))) =
     set_boundingBoxSize (Vector3 (Num 1) (Num 2) (Num 3)) (fst example_eager)
       (snd example_eager) \<and>
   \<not> Vector3_equals (Vector3 NaN (Num 2) (Num (3::int))) (Vector3 NaN (Num 2) (Num 3)) \<and>
   u_scene (base (fst example_eager)) \<and>
   u_boundingBoxSize (fst (set_boundingBoxSize (Vector3 NaN (Num 2) (Num 3))
      (fst (set_boundingBoxSize (Vector3 NaN (Num 2) (Num 3)) (fst example_eager)
         (snd example_eager)))
      (snd (set_boundingBoxSize (Vector3 NaN (Num 2) (Num 3)) (fst example_eager)
         (snd example_eager))))) = Some (Vector3 NaN (Num 2) (Num 3)) \<and>
   length (dirtyMarks (snd (set_boundingBoxSize (Vector3 NaN (Num 2) (Num 3))
      (fst (set_boundingBoxSize (Vector3 NaN (Num 2) (Num 3)) (fst example_eager)
         (snd example_eager)))
      (snd (set_boundingBoxSize (Vector3 NaN (Num 2) (Num 3)) (fst example_eager)
         (snd example_eager)))))) = 2"
proof -
  have same:
    "Vector3_equals (Vector3 (Num 1) (Num 2) (Num (3::int))) (Vector3 (Num 1) (Num 2) (Num 3))"
    by simp
  have nan:
    "\<not> Vector3_equals (Vector3 NaN (Num 2) (Num (3::int))) (Vector3 NaN (Num 2) (Num 3))"
    by simp
  have attached: "u_scene (base (fst example_eager))"
    and clean: "dirtyMarks (snd example_eager) = []"
    by (simp_all add: example_defs example_eager_def CubeTexture_new_def Let_def engine_defs)
  have marks:
    "dirtyMarks (snd (set_boundingBoxSize (Vector3 (Num 1) (Num 2) (Num 3))
       (fst example_eager) (snd example_eager))) = [TextureDirtyFlag]"
    by (simp add: set_boundingBoxSize_def example_defs example_eager_def CubeTexture_new_def
        Let_def engine_defs)
  show ?thesis
    using same nan attached clean marks
      boundingBoxSize_set_twice [of "Vector3 (Num 1) (Num 2) (Num 3)"
        "Vector3 (Num 1) (Num 2) (Num 3)" "fst example_eager" "snd example_eager"]
      boundingBoxSize_set_twice [of "Vector3 NaN (Num 2) (Num 3)"
        "Vector3 NaN (Num 2) (Num 3)" "fst example_eager" "snd example_eager"]
    by simp
qed

section \<open>Cloning\<close>

text \<open>
  C4. The claim wants the clone of the descriptor built from the root \<open>env.env\<close> with
  prefiltered data requested to keep the prefiltered flag. The original stores the flag as
  true; \<open>clone\<close> builds the new descriptor from five arguments, the flag not among them,
  so the clone has the same root and an empty face list but stores the flag as false. The
  loss shows in what is loaded: the descriptor built from \<open>sky.dds\<close> under deferred loading
  calls the prefiltered loader when it is materialised, its clone the six-image loader.
\<close>

theorem clone_loses_prefiltered_flag:
  "u_scene (base (fst example_env)) \<and>
   url (fst example_env) = ''env.env'' \<and>
   u_prefiltered (fst example_env) = True \<and>
   u_files (fst example_env) = Some [] \<and>
   (case fst (clone example_Matrix example_super example_copy (fst example_env)
               (snd example_env)) of
      SameInstance \<Rightarrow> None
    | NewInstance c \<Rightarrow> Some (url c, u_prefiltered c, u_files c)) =
     Some (''env.env'', False, Some []) \<and>
   resolve_extension ''sky.dds'' None = ''.dds'' \<and>
   u_prefiltered (fst example_dds) = True \<and>
   calls (snd (delayLoad (fst example_dds) (example_scene True []))) =
     [GetFromCache ''sky.dds'' False,
      CreatePrefilteredCubeTexture ''sky.dds'' (Num 1) (Num 0) None None TEXTUREFORMAT_RGBA
        None False] \<and>
   (case clone example_Matrix example_super example_copy (fst example_dds)
           (example_scene True []) of
      (SameInstance, sc) \<Rightarrow> None
    | (NewInstance c, sc) \<Rightarrow>
        Some (u_prefiltered c, calls (snd (delayLoad c (example_scene True []))))) =
     Some (False,
       [GetFromCache ''sky.dds'' False,
        CreateCubeTexture ''sky.dds'' (Some []) False None None TEXTUREFORMAT_RGBA None])"
  by (simp add: clone_def copy_annotated_def CubeTexture_new_def delayLoad_def Let_def
      engine_defs example_defs example_env_def example_dds_def example_copy_def string_defs
      resolve_files_def)

end
